theory Spec2Isabelle
  imports Main "HOL-Library.AList"
begin

section \<open>Python strings and integers\<close>

text \<open>
  A Python \<^verbatim>\<open>str\<close> is modelled as a \<^typ>\<open>string\<close>: the character with code \<open>n\<close>
  stands for the Unicode code point \<open>n\<close>, so the model covers the strings whose code
  points are below 256. The character classes below are Python's, restricted to that
  range. Python's unbounded \<^verbatim>\<open>int\<close> is \<^typ>\<open>int\<close>, \<^verbatim>\<open>Optional[t]\<close> is an option.
\<close>

datatype py_error = IndexError

definition chr_code :: "char \<Rightarrow> nat" where
  "chr_code c = of_char c"

text \<open>\<^verbatim>\<open>str.isspace\<close> on one character: U+0009..U+000D, U+001C..U+0020, U+0085, U+00A0.\<close>

definition isspace_chr :: "char \<Rightarrow> bool" where
  "isspace_chr c = (let n = chr_code c in
     (9 \<le> n \<and> n \<le> 13) \<or> (28 \<le> n \<and> n \<le> 32) \<or> n = 133 \<or> n = 160)"

text \<open>The decimal digits \<^verbatim>\<open>0\<close>..\<^verbatim>\<open>9\<close>: what \<^verbatim>\<open>\d\<close> matches in a \<^verbatim>\<open>str\<close> pattern.\<close>

definition decimal_chr :: "char \<Rightarrow> bool" where
  "decimal_chr c = (c \<in> set ''0123456789'')"

text \<open>
  \<^verbatim>\<open>str.isdigit\<close> on one character: the decimal digits and the characters of numeric
  type Digit, which below 256 are the superscripts U+00B2, U+00B3 and U+00B9.
\<close>

definition isdigit_chr :: "char \<Rightarrow> bool" where
  "isdigit_chr c = (decimal_chr c \<or> c \<in> set [CHR 0xB2, CHR 0xB3, CHR 0xB9])"

definition upper_AZ :: "char \<Rightarrow> bool" where
  "upper_AZ c = (c \<in> set ''ABCDEFGHIJKLMNOPQRSTUVWXYZ'')"

definition lower_az :: "char \<Rightarrow> bool" where
  "lower_az c = (c \<in> set ''abcdefghijklmnopqrstuvwxyz'')"

definition alpha_chr :: "char \<Rightarrow> bool" where
  "alpha_chr c = (lower_az c \<or> upper_AZ c)"

text \<open>\<^verbatim>\<open>s.strip()\<close>, \<^verbatim>\<open>s.split()\<close> and \<^verbatim>\<open>s.isdigit()\<close>.\<close>

definition py_strip :: "string \<Rightarrow> string" where
  "py_strip s = rev (dropWhile isspace_chr (rev (dropWhile isspace_chr s)))"

fun split_from :: "string \<Rightarrow> string \<Rightarrow> string list" where
  "split_from cur [] = (if cur = [] then [] else [cur])"
| "split_from cur (c # cs) =
     (if isspace_chr c then (if cur = [] then split_from [] cs else cur # split_from [] cs)
      else split_from (cur @ [c]) cs)"

definition py_split :: "string \<Rightarrow> string list" where
  "py_split s = split_from [] s"

definition py_isdigit :: "string \<Rightarrow> bool" where
  "py_isdigit s = (s \<noteq> [] \<and> list_all isdigit_chr s)"

text \<open>
  \<^verbatim>\<open>s.upper()\<close> and \<^verbatim>\<open>s.lower()\<close>. Below 256 the lower-case letters are \<^verbatim>\<open>a\<close>..\<^verbatim>\<open>z\<close>
  and U+00E0..U+00FE without U+00F7; U+00DF becomes \<^verbatim>\<open>SS\<close>. Python maps U+00B5 and
  U+00FF to upper-case code points above 255; they are kept as they are here, and every
  caller of \<open>py_upper\<close> below only compares the result with ASCII characters.
\<close>

definition lower_letters :: string where
  "lower_letters = ''abcdefghijklmnopqrstuvwxyz'' @
     [CHR 0xE0, CHR 0xE1, CHR 0xE2, CHR 0xE3, CHR 0xE4, CHR 0xE5, CHR 0xE6, CHR 0xE7,
      CHR 0xE8, CHR 0xE9, CHR 0xEA, CHR 0xEB, CHR 0xEC, CHR 0xED, CHR 0xEE, CHR 0xEF,
      CHR 0xF0, CHR 0xF1, CHR 0xF2, CHR 0xF3, CHR 0xF4, CHR 0xF5, CHR 0xF6,
      CHR 0xF8, CHR 0xF9, CHR 0xFA, CHR 0xFB, CHR 0xFC, CHR 0xFD, CHR 0xFE]"

definition upper_letters :: string where
  "upper_letters = ''ABCDEFGHIJKLMNOPQRSTUVWXYZ'' @
     [CHR 0xC0, CHR 0xC1, CHR 0xC2, CHR 0xC3, CHR 0xC4, CHR 0xC5, CHR 0xC6, CHR 0xC7,
      CHR 0xC8, CHR 0xC9, CHR 0xCA, CHR 0xCB, CHR 0xCC, CHR 0xCD, CHR 0xCE, CHR 0xCF,
      CHR 0xD0, CHR 0xD1, CHR 0xD2, CHR 0xD3, CHR 0xD4, CHR 0xD5, CHR 0xD6,
      CHR 0xD8, CHR 0xD9, CHR 0xDA, CHR 0xDB, CHR 0xDC, CHR 0xDD, CHR 0xDE]"

definition upper_chr :: "char \<Rightarrow> string" where
  "upper_chr c = (case map_of (zip lower_letters upper_letters) c of
       Some u \<Rightarrow> [u]
     | None \<Rightarrow> if c = CHR 0xDF then ''SS'' else [c])"

definition py_upper :: "string \<Rightarrow> string" where
  "py_upper s = concat (map upper_chr s)"

definition lower_chr :: "char \<Rightarrow> char" where
  "lower_chr c = (case map_of (zip upper_letters lower_letters) c of Some l \<Rightarrow> l | None \<Rightarrow> c)"

definition py_lower :: "string \<Rightarrow> string" where
  "py_lower s = map lower_chr s"

text \<open>\<^verbatim>\<open>sub in s\<close> on strings.\<close>

fun starts_with :: "string \<Rightarrow> string \<Rightarrow> bool" where
  "starts_with s [] = True"
| "starts_with [] (p # ps) = False"
| "starts_with (c # cs) (p # ps) = (c = p \<and> starts_with cs ps)"

fun py_in :: "string \<Rightarrow> string \<Rightarrow> bool" where
  "py_in sub [] = (sub = [])"
| "py_in sub (c # cs) = (starts_with (c # cs) sub \<or> py_in sub cs)"

text \<open>
  \<^verbatim>\<open>int(s)\<close> in base 10: outer whitespace is dropped, then an optional sign and decimal
  digits, single underscores allowed between digits. \<open>None\<close> is the \<^verbatim>\<open>ValueError\<close>.
\<close>

definition digit_val :: "char \<Rightarrow> nat" where
  "digit_val c = chr_code c - 48"

definition digits_value :: "string \<Rightarrow> nat" where
  "digits_value s = foldl (\<lambda>a c. 10 * a + digit_val c) 0 s"

fun no_double_underscore :: "string \<Rightarrow> bool" where
  "no_double_underscore (a # b # cs) =
     (\<not> (a = CHR ''_'' \<and> b = CHR ''_'') \<and> no_double_underscore (b # cs))"
| "no_double_underscore cs = True"

definition int_literal_ok :: "string \<Rightarrow> bool" where
  "int_literal_ok body = (body \<noteq> [] \<and> list_all (\<lambda>c. decimal_chr c \<or> c = CHR ''_'') body
     \<and> decimal_chr (hd body) \<and> decimal_chr (last body) \<and> no_double_underscore body)"

definition py_int :: "string \<Rightarrow> int option" where
  "py_int s = (let t = py_strip s;
                   neg = (t \<noteq> [] \<and> hd t = CHR ''-'');
                   body = (if t \<noteq> [] \<and> (hd t = CHR ''-'' \<or> hd t = CHR ''+'') then tl t else t)
               in if int_literal_ok body
                  then Some ((if neg then - 1 else 1) *
                             int (digits_value (filter (\<lambda>c. c \<noteq> CHR ''_'') body)))
                  else None)"

text \<open>\<^verbatim>\<open>str(i)\<close> of an integer.\<close>

definition digit_chr :: "nat \<Rightarrow> char" where
  "digit_chr d = (if d = 0 then CHR ''0'' else if d = 1 then CHR ''1'' else if d = 2 then CHR ''2''
     else if d = 3 then CHR ''3'' else if d = 4 then CHR ''4'' else if d = 5 then CHR ''5''
     else if d = 6 then CHR ''6'' else if d = 7 then CHR ''7'' else if d = 8 then CHR ''8''
     else CHR ''9'')"

fun nat_digits :: "nat \<Rightarrow> string" where
  "nat_digits n = (if n < 10 then [digit_chr n] else nat_digits (n div 10) @ [digit_chr (n mod 10)])"

declare nat_digits.simps [simp del]

definition py_str_int :: "int \<Rightarrow> string" where
  "py_str_int i = (if i < 0 then CHR ''-'' # nat_digits (nat (- i)) else nat_digits (nat i))"

text \<open>
  \<^verbatim>\<open>round(n / d)\<close> for a positive \<open>d\<close>: Python rounds a half to the even neighbour.
\<close>

definition py_round_div :: "int \<Rightarrow> int \<Rightarrow> int" where
  "py_round_div n d = (let q = n div d; r = n mod d in
     if 2 * r < d then q else if d < 2 * r then q + 1 else if even q then q else q + 1)"

section \<open>Canonical barcode key\<close>

text \<open>
  \<^verbatim>\<open>App._clean_scanned_code\<close>. \<^verbatim>\<open>re.fullmatch(r"[A-Z]{2}", t)\<close> is \<open>fullmatch_AZ2\<close>;
  \<^verbatim>\<open>tokens[0]\<close> of an empty list is the \<open>IndexError\<close>.
\<close>

definition fullmatch_AZ2 :: "string \<Rightarrow> bool" where
  "fullmatch_AZ2 t = (length t = 2 \<and> list_all upper_AZ t)"

definition clean_scanned_code :: "string \<Rightarrow> py_error + string" where
  "clean_scanned_code raw =
     (let s = py_strip raw in
      if s = [] then Inr s
      else
        let tokens0 = py_split s;
            tokens = (if 2 \<le> length tokens0 \<and> fullmatch_AZ2 (tokens0 ! 0)
                      then tl tokens0 else tokens0)
        in case (if 2 \<le> length tokens \<and> py_isdigit (last tokens)
                    \<and> py_isdigit (tokens ! (length tokens - 2))
                 then Inr (last tokens)
                 else (case tokens of [] \<Rightarrow> Inl IndexError | t # _ \<Rightarrow> Inr t)) of
             Inl e \<Rightarrow> Inl e
           | Inr candidate \<Rightarrow>
               if CHR ''+'' \<in> set candidate
               then Inr (takeWhile (\<lambda>c. c \<noteq> CHR ''+'') candidate)
               else Inr candidate)"

text \<open>
  The canonicalizer as the specification words it, with the class of characters that
  counts as a digit left open: trim; empty stays empty; split on whitespace; drop a
  leading token of two upper-case letters when there are at least two tokens; take the
  last token when at least two remain and the last two are all digits, else the first;
  cut at the first \<^verbatim>\<open>+\<close>.
\<close>

definition canonicalize_spec :: "(char \<Rightarrow> bool) \<Rightarrow> string \<Rightarrow> string" where
  "canonicalize_spec digit raw =
     (let toks = py_split (py_strip raw);
          rest = (case toks of t # u # us \<Rightarrow> if fullmatch_AZ2 t then u # us else toks
                  | _ \<Rightarrow> toks);
          cand = (case rev rest of
                    a # b # _ \<Rightarrow> if list_all digit a \<and> list_all digit b then a else hd rest
                  | [a] \<Rightarrow> a
                  | [] \<Rightarrow> [])
      in takeWhile (\<lambda>c. c \<noteq> CHR ''+'') cand)"

section \<open>Module class codec\<close>

text \<open>The table \<^verbatim>\<open>COMMON_MB_TO_MTS\<close>, a dictionary in insertion order.\<close>

definition COMMON_MB_TO_MTS :: "(int \<times> int) list" where
  "COMMON_MB_TO_MTS =
     [(6400, 800), (8500, 1066), (8533, 1066), (10600, 1333), (10660, 1333), (10700, 1333),
      (12800, 1600), (14900, 1866), (15000, 1866), (16000, 2000), (17000, 2133),
      (17900, 2250), (19200, 2400), (21300, 2666), (22400, 2800), (23000, 2888),
      (24000, 3000), (25600, 3200), (28800, 3600), (32000, 4000)]"

text \<open>\<^verbatim>\<open>d.setdefault(k, v)\<close>: a key the dictionary holds keeps its value.\<close>

definition dict_setdefault :: "'k \<Rightarrow> 'v \<Rightarrow> ('k \<times> 'v) list \<Rightarrow> ('k \<times> 'v) list" where
  "dict_setdefault k v d = (case map_of d k of Some _ \<Rightarrow> d | None \<Rightarrow> d @ [(k, v)])"

definition SPEED_TO_MB :: "(int \<times> int) list" where
  "SPEED_TO_MB = fold (\<lambda>(mb, mts) d. dict_setdefault mts mb d) COMMON_MB_TO_MTS []"

text \<open>
  \<^verbatim>\<open>MODULE_CLASS_RE\<close>, the pattern
  \<^verbatim>\<open>pc(?P<gen>\d+)(?P<lv>l)?[- ]?(?P<rating>\d{3,6})(?P<suffix>[a-zA-Z]*)\<close> with
  \<^verbatim>\<open>re.IGNORECASE\<close>, as the backtracking matcher runs it: \<open>mc_rating\<close> is the greedy
  \<^verbatim>\<open>\d{3,6}\<close> followed by the letters (which cannot fail), \<open>mc_sep\<close> tries the separator
  taken before not taken, \<open>mc_lv\<close> the \<^verbatim>\<open>l\<close> taken before not taken, \<open>mc_gen\<close> the digits
  of \<^verbatim>\<open>gen\<close> from the longest run down to one digit, and the search tries each start
  position from the left.
\<close>

record mc_match =
  gen :: string
  lv :: "string option"
  rating :: string
  suffix :: string

definition mc_rating :: "string \<Rightarrow> (string \<times> string) option" where
  "mc_rating s = (let k = min 6 (length (takeWhile decimal_chr s)) in
     if 3 \<le> k then Some (take k s, takeWhile alpha_chr (drop k s)) else None)"

definition mc_sep :: "string \<Rightarrow> (string \<times> string) option" where
  "mc_sep s = (case s of
       c # r \<Rightarrow> if c = CHR ''-'' \<or> c = CHR '' ''
                then (case mc_rating r of Some m \<Rightarrow> Some m | None \<Rightarrow> mc_rating s)
                else mc_rating s
     | [] \<Rightarrow> mc_rating s)"

definition mc_lv :: "string \<Rightarrow> (string option \<times> string \<times> string) option" where
  "mc_lv s = (case s of
       c # r \<Rightarrow> if c = CHR ''l'' \<or> c = CHR ''L''
                then (case mc_sep r of
                        Some (ra, su) \<Rightarrow> Some (Some [c], ra, su)
                      | None \<Rightarrow> map_option (\<lambda>(ra, su). (None, ra, su)) (mc_sep s))
                else map_option (\<lambda>(ra, su). (None, ra, su)) (mc_sep s)
     | [] \<Rightarrow> map_option (\<lambda>(ra, su). (None, ra, su)) (mc_sep s))"

fun mc_gen :: "nat \<Rightarrow> string \<Rightarrow> mc_match option" where
  "mc_gen 0 s = None"
| "mc_gen (Suc k) s = (case mc_lv (drop (Suc k) s) of
       Some (l, ra, su) \<Rightarrow> Some \<lparr>gen = take (Suc k) s, lv = l, rating = ra, suffix = su\<rparr>
     | None \<Rightarrow> mc_gen k s)"

definition mc_match_at :: "string \<Rightarrow> mc_match option" where
  "mc_match_at s = (case s of
       p # c # r \<Rightarrow>
         if (p = CHR ''p'' \<or> p = CHR ''P'') \<and> (c = CHR ''c'' \<or> c = CHR ''C'')
         then mc_gen (length (takeWhile decimal_chr r)) r else None
     | _ \<Rightarrow> None)"

fun MODULE_CLASS_RE_search :: "string \<Rightarrow> mc_match option" where
  "MODULE_CLASS_RE_search [] = None"
| "MODULE_CLASS_RE_search (c # cs) = (case mc_match_at (c # cs) of
       Some m \<Rightarrow> Some m
     | None \<Rightarrow> MODULE_CLASS_RE_search cs)"

text \<open>
  \<^verbatim>\<open>synth_module_class\<close>. \<^verbatim>\<open>not mem_type\<close> holds for \<^verbatim>\<open>None\<close> and the empty string,
  \<^verbatim>\<open>not speed_mts\<close> for \<^verbatim>\<open>None\<close> and 0. The two substitutions leave the characters
  \<^verbatim>\<open>A-Z0-9\<close>. The fallback bandwidth \<^verbatim>\<open>int(round(speed_mts * 8 / 100.0)) * 100\<close> is a
  floating point computation in the source; the exact rounding below agrees with it as
  long as the product is exactly representable as a double (below \<open>2^53\<close>).
\<close>

definition synth_module_class ::
    "string option \<Rightarrow> int option \<Rightarrow> string option \<Rightarrow> string option" where
  "synth_module_class mem_type_arg speed_arg manual_kind =
     (case (mem_type_arg, speed_arg) of
        (Some mt, Some sp) \<Rightarrow>
          if mt = [] \<or> sp = 0 then None
          else
            let m0 = filter (\<lambda>c. c \<noteq> CHR '' '') (py_upper mt);
                m = filter (\<lambda>c. upper_AZ c \<or> decimal_chr c) m0
            in if \<not> starts_with m ''DDR'' \<or> length m < 4 \<or> \<not> isdigit_chr (m ! 3) then None
               else
                 let pc_prefix = ''PC'' @ [m ! 3];
                     mb = (case map_of SPEED_TO_MB sp of
                             Some mb \<Rightarrow> mb
                           | None \<Rightarrow> py_round_div (sp * 8) 100 * 100)
                 in Some (pc_prefix @ ''-'' @ py_str_int mb)
      | _ \<Rightarrow> None)"

definition extract_module_class :: "string \<Rightarrow> string option" where
  "extract_module_class text = (case MODULE_CLASS_RE_search text of
       None \<Rightarrow> None
     | Some m \<Rightarrow>
         let lv_s = (case lv m of Some l \<Rightarrow> l | None \<Rightarrow> []);
             prefix = ''PC'' @ gen m @ py_upper lv_s
         in Some (prefix @ ''-'' @ rating m @ py_upper (suffix m)))"

definition gen_mem_type :: "string \<Rightarrow> string option" where
  "gen_mem_type g = map_of [(''2'', ''DDR2''), (''3'', ''DDR3''), (''4'', ''DDR4''), (''5'', ''DDR5'')] g"

definition rating_speed :: "int \<Rightarrow> int" where
  "rating_speed rating_int = (case map_of COMMON_MB_TO_MTS rating_int of
       Some mts \<Rightarrow> mts
     | None \<Rightarrow> if rating_int < 4000 then rating_int else max 1 (py_round_div rating_int 8))"

definition parse_module_class :: "string \<Rightarrow> string option \<times> int option \<times> bool option" where
  "parse_module_class mc =
     (let s = py_upper (py_strip mc) in
      case MODULE_CLASS_RE_search s of
        None \<Rightarrow> (None, None, None)
      | Some m \<Rightarrow>
          let sfx = py_upper (suffix m);
              mt = gen_mem_type (gen m);
              speed = (case py_int (rating m) of
                         Some rating_int \<Rightarrow> Some (rating_speed rating_int)
                       | None \<Rightarrow> None);
              ec = (if CHR ''E'' \<in> set sfx \<or> CHR ''Q'' \<in> set sfx then Some True else None)
          in (mt, speed, ec))"

section \<open>Mappings and the mapping store\<close>

text \<open>
  Python's \<^verbatim>\<open>re\<close> module is not part of the program: \<^verbatim>\<open>re.search(pattern, text)\<close> is a
  parameter \<open>rx\<close>. \<open>rx p t = None\<close> stands for no match (and, for the pattern of a user
  mapping, for \<^verbatim>\<open>re.error\<close>, which \<^verbatim>\<open>Mapping.matches\<close> turns into no match);
  \<open>rx p t = Some gs\<close> is a match whose capture groups are \<open>gs\<close>.
\<close>

type_synonym re_search = "string \<Rightarrow> string \<Rightarrow> string list option"

record Mapping =
  pattern :: string
  size_gb :: "int option"
  speed_mts :: "int option"
  mem_type :: "string option"
  manufacturer :: "string option"
  module_class :: "string option"
  ecc :: "bool option"
  regex :: bool

definition matches :: "re_search \<Rightarrow> Mapping \<Rightarrow> string \<Rightarrow> bool" where
  "matches rx m code = (if regex m then rx (pattern m) code \<noteq> None else pattern m = code)"

text \<open>
  The store: the mapping list, the version table (a dictionary in insertion order) and
  \<open>saved\<close>, the content of the JSON file as \<^verbatim>\<open>save\<close> last wrote it (\<open>None\<close> before the
  first write).
\<close>

record MappingStore =
  mappings :: "Mapping list"
  versions :: "(string \<times> int) list"
  saved :: "(Mapping list \<times> (string \<times> int) list) option"

definition store_save :: "MappingStore \<Rightarrow> MappingStore" where
  "store_save st = st\<lparr>saved := Some (mappings st, versions st)\<rparr>"

definition store_add :: "Mapping \<Rightarrow> MappingStore \<Rightarrow> MappingStore" where
  "store_add m st = store_save (st\<lparr>mappings := mappings st @ [m]\<rparr>)"

text \<open>
  \<^verbatim>\<open>remove_index\<close>: \<^verbatim>\<open>del self.mappings[idx]\<close> counts a negative index from the end and
  raises \<^verbatim>\<open>IndexError\<close> outside \<open>-len .. len - 1\<close>; the exception is swallowed before
  \<^verbatim>\<open>save\<close> runs.
\<close>

definition remove_index :: "int \<Rightarrow> MappingStore \<Rightarrow> MappingStore" where
  "remove_index idx st =
     (let n = int (length (mappings st));
          j = (if idx < 0 then n + idx else idx)
      in if 0 \<le> j \<and> j < n
         then store_save (st\<lparr>mappings := take (nat j) (mappings st) @ drop (Suc (nat j)) (mappings st)\<rparr>)
         else st)"

definition find_mapping :: "re_search \<Rightarrow> MappingStore \<Rightarrow> string \<Rightarrow> Mapping option" where
  "find_mapping rx st code =
     (case List.find (\<lambda>m. \<not> regex m \<and> matches rx m code) (mappings st) of
        Some m \<Rightarrow> Some m
      | None \<Rightarrow> List.find (\<lambda>m. regex m \<and> matches rx m code) (mappings st))"

section \<open>Classification\<close>

text \<open>Python truth values of optional integers and strings.\<close>

definition truthy_int :: "int option \<Rightarrow> bool" where
  "truthy_int x = (case x of None \<Rightarrow> False | Some i \<Rightarrow> i \<noteq> 0)"

definition truthy_str :: "string option \<Rightarrow> bool" where
  "truthy_str x = (case x of None \<Rightarrow> False | Some s \<Rightarrow> s \<noteq> [])"

text \<open>The tuple \<^verbatim>\<open>parse_barcode\<close> returns.\<close>

record parsed =
  p_size_gb :: "int option"
  p_speed_mts :: "int option"
  p_mem_type :: "string option"
  p_manufacturer :: "string option"
  p_module_class :: "string option"
  p_ecc :: "bool option"
  parsed_ok :: bool

definition all_four :: "int option \<Rightarrow> int option \<Rightarrow> string option \<Rightarrow> string option \<Rightarrow> bool" where
  "all_four sz sp mt mf = (truthy_int sz \<and> truthy_int sp \<and> truthy_str mt \<and> truthy_str mf)"

text \<open>
  What the module class of a result decodes to: \<^verbatim>\<open>parse_module_class\<close> under
  \<^verbatim>\<open>if module_class:\<close>, and three absent values when the class is \<^verbatim>\<open>None\<close> or empty
  (nothing is backfilled then).
\<close>

definition decoded_class :: "string option \<Rightarrow> string option \<times> int option \<times> bool option" where
  "decoded_class mc = (case mc of
       Some c \<Rightarrow> if c \<noteq> [] then parse_module_class c else (None, None, None)
     | None \<Rightarrow> (None, None, None))"

text \<open>The branch \<^verbatim>\<open>if m:\<close> of \<^verbatim>\<open>parse_barcode\<close>: a mapping was found.\<close>

definition parse_mapped :: "Mapping \<Rightarrow> parsed" where
  "parse_mapped m =
     (let mc_type = fst (decoded_class (module_class m));
          mc_speed = fst (snd (decoded_class (module_class m)));
          mc_ecc = snd (snd (decoded_class (module_class m)));
          mt = (if truthy_str mc_type \<and> \<not> truthy_str (mem_type m) then mc_type else mem_type m);
          sp = (if truthy_int mc_speed \<and> \<not> truthy_int (speed_mts m) then mc_speed
                else speed_mts m);
          ec = (if mc_ecc \<noteq> None \<and> ecc m = None then mc_ecc else ecc m)
      in \<lparr>p_size_gb = size_gb m, p_speed_mts = sp, p_mem_type = mt,
          p_manufacturer = manufacturer m, p_module_class = module_class m, p_ecc = ec,
          parsed_ok = all_four (size_gb m) sp mt (manufacturer m)\<rparr>)"

text \<open>The heuristic tables; \<open>bsl\<close> is the backslash of the patterns.\<close>

definition bsl :: string where
  "bsl = [CHR 0x5C]"

definition MANUFACTURER_HINTS :: "(string \<times> string) list" where
  "MANUFACTURER_HINTS =
     [(''samsung'', ''Samsung''), (''hynix'', ''SK Hynix''), (''skhynix'', ''SK Hynix''),
      (''micron'', ''Micron''), (''crucial'', ''Crucial''), (''kingston'', ''Kingston''),
      (''gskill'', ''G.SKILL''), (''g.skill'', ''G.SKILL''), (''adata'', ''ADATA''),
      (''corsair'', ''Corsair''), (''patriot'', ''Patriot''), (''teamgroup'', ''TeamGroup''),
      (''lexar'', ''Lexar''), (''ramaxel'', ''Ramaxel''), (''nanya'', ''Nanya'')]"

definition TYPE_PATTERNS :: "(string \<times> string) list" where
  "TYPE_PATTERNS =
     [(''ddr'' @ bsl @ ''s*5'', ''DDR5''), (''ddr'' @ bsl @ ''s*4'', ''DDR4''),
      (''ddr'' @ bsl @ ''s*3'', ''DDR3''), (''ddr'' @ bsl @ ''s*2'', ''DDR2''),
      (''pc5'', ''DDR5''), (''pc4'', ''DDR4''), (''pc3'', ''DDR3''), (''pc2'', ''DDR2'')]"

definition SIZE_PATTERNS :: "string list" where
  "SIZE_PATTERNS =
     [bsl @ ''b('' @ bsl @ ''d+)'' @ bsl @ ''s*gb'' @ bsl @ ''b'',
      bsl @ ''b('' @ bsl @ ''d+)'' @ bsl @ ''s*g'' @ bsl @ ''b'',
      bsl @ ''b('' @ bsl @ ''d+)'' @ bsl @ ''s*x?'' @ bsl @ ''s*'' @ bsl @ ''d+gb'' @ bsl @ ''b'']"

definition SPEED_PATTERNS :: "string list" where
  "SPEED_PATTERNS =
     [bsl @ ''b('' @ bsl @ ''d{3,5})'' @ bsl @ ''s*mt'' @ bsl @ ''/?s'' @ bsl @ ''b'',
      bsl @ ''b('' @ bsl @ ''d{3,5})'' @ bsl @ ''s*mhz'' @ bsl @ ''b'']"

text \<open>
  The loops over \<^verbatim>\<open>SIZE_PATTERNS\<close> and \<^verbatim>\<open>SPEED_PATTERNS\<close>: the first pattern that
  matches and whose group 1 converts with \<^verbatim>\<open>int\<close> gives the value; a pattern that does
  not match, or whose conversion raises, is passed over.
\<close>

fun first_int_group :: "re_search \<Rightarrow> string \<Rightarrow> string list \<Rightarrow> int option" where
  "first_int_group rx lower [] = None"
| "first_int_group rx lower (pat # pats) =
     (case rx pat lower of
        None \<Rightarrow> first_int_group rx lower pats
      | Some gs \<Rightarrow>
          (case (case gs of [] \<Rightarrow> None | g # _ \<Rightarrow> py_int g) of
             Some v \<Rightarrow> Some v
           | None \<Rightarrow> first_int_group rx lower pats))"

fun first_type :: "re_search \<Rightarrow> string \<Rightarrow> (string \<times> string) list \<Rightarrow> string option" where
  "first_type rx lower [] = None"
| "first_type rx lower ((pat, tval) # pats) =
     (case rx pat lower of Some _ \<Rightarrow> Some tval | None \<Rightarrow> first_type rx lower pats)"

fun first_manufacturer :: "string \<Rightarrow> (string \<times> string) list \<Rightarrow> string option" where
  "first_manufacturer lower [] = None"
| "first_manufacturer lower ((key, name) # hints) =
     (if py_in key lower then Some name else first_manufacturer lower hints)"

text \<open>The rest of \<^verbatim>\<open>parse_barcode\<close>: no mapping was found.\<close>

definition parse_heuristic :: "re_search \<Rightarrow> string \<Rightarrow> parsed" where
  "parse_heuristic rx lower =
     (let sz = first_int_group rx lower SIZE_PATTERNS;
          mt0 = first_type rx lower TYPE_PATTERNS;
          sp0 = first_int_group rx lower SPEED_PATTERNS;
          mcl = extract_module_class lower;
          mc_type = fst (decoded_class mcl);
          mc_speed = fst (snd (decoded_class mcl));
          mc_ecc = snd (snd (decoded_class mcl));
          mt = (if truthy_str mc_type \<and> \<not> truthy_str mt0 then mc_type else mt0);
          sp = (if truthy_int mc_speed \<and> \<not> truthy_int sp0 then mc_speed else sp0);
          mf = first_manufacturer lower MANUFACTURER_HINTS
      in \<lparr>p_size_gb = sz, p_speed_mts = sp, p_mem_type = mt, p_manufacturer = mf,
          p_module_class = mcl, p_ecc = mc_ecc, parsed_ok = all_four sz sp mt mf\<rparr>)"

definition parse_barcode :: "re_search \<Rightarrow> string \<Rightarrow> MappingStore \<Rightarrow> parsed" where
  "parse_barcode rx code st =
     (let code_clean = py_strip code in
      case find_mapping rx st code_clean of
        Some m \<Rightarrow> parse_mapped m
      | None \<Rightarrow> parse_heuristic rx (py_lower code_clean))"

section \<open>The application state\<close>

record ScanResult =
  sr_id :: int
  sr_timestamp :: string
  sr_barcode :: string
  sr_size_gb :: int
  sr_speed_mts :: int
  sr_mem_type :: string
  sr_module_class :: "string option"
  sr_ecc :: "bool option"
  sr_manufacturer :: string
  sr_version :: int

text \<open>
  An object of the scan ledger \<^verbatim>\<open>scan_results.json\<close>. A field may be missing
  (\<^verbatim>\<open>obj.get\<close> supplies a default); a field that is there has the type the file format
  gives it.
\<close>

record ledger_entry =
  e_id :: "int option"
  e_timestamp :: "string option"
  e_barcode :: "string option"
  e_version :: "int option"

type_synonym variant_meta_t =
  "int \<times> int \<times> string \<times> string option \<times> bool option \<times> string"

text \<open>
  The state of \<^verbatim>\<open>App\<close> without its widgets, together with \<open>results_json\<close>, the ledger
  file (\<open>None\<close>: no file, or one that does not hold a JSON list).
\<close>

record App =
  store :: MappingStore
  barcode_versions :: "(string \<times> int) list"
  variant_meta :: "(string \<times> variant_meta_t) list"
  variant_counts :: "(string \<times> int) list"
  results_data :: "ScanResult list"
  result_seq :: int
  latest_item_id :: "int option"
  latest_key :: "string option"
  results_json :: "ledger_entry list option"

text \<open>\<^verbatim>\<open>max(xs, default=d)\<close>.\<close>

definition py_max_default :: "int \<Rightarrow> int list \<Rightarrow> int" where
  "py_max_default d xs = (case xs of [] \<Rightarrow> d | x # r \<Rightarrow> fold max r x)"

text \<open>\<^verbatim>\<open>(max(self.barcode_versions.values()) if self.barcode_versions else 0) + 1\<close>.\<close>

definition next_version :: "(string \<times> int) list \<Rightarrow> int" where
  "next_version vers = py_max_default 0 (map snd vers) + 1"

definition dict_get :: "('k \<times> 'v) list \<Rightarrow> 'k \<Rightarrow> 'v \<Rightarrow> 'v" where
  "dict_get d k dflt = (case map_of d k of Some v \<Rightarrow> v | None \<Rightarrow> dflt)"

definition save_results_file :: "App \<Rightarrow> App" where
  "save_results_file a = a\<lparr>results_json := Some (map (\<lambda>r.
       \<lparr>e_id = Some (sr_id r), e_timestamp = Some (sr_timestamp r),
        e_barcode = Some (sr_barcode r), e_version = Some (sr_version r)\<rparr>) (results_data a))\<rparr>"

text \<open>
  \<^verbatim>\<open>_load_results_file\<close>: the loop over the objects of the file, \<open>out\<close> the results
  appended so far; \<open>now\<close> is the clock's timestamp.
\<close>

fun load_entries ::
    "re_search \<Rightarrow> string \<Rightarrow> MappingStore \<Rightarrow> ledger_entry list \<Rightarrow> ScanResult list
      \<Rightarrow> ScanResult list" where
  "load_entries rx now st [] out = out"
| "load_entries rx now st (obj # objs) out =
     (let barcode = py_strip (case e_barcode obj of Some b \<Rightarrow> b | None \<Rightarrow> [])
      in if barcode = [] then load_entries rx now st objs out
         else
           let rid = (case e_id obj of Some i \<Rightarrow> i | None \<Rightarrow> int (length out) + 1);
               ts = (case e_timestamp obj of
                       Some t \<Rightarrow> if t = [] then now else t
                     | None \<Rightarrow> now);
               version = (case e_version obj of Some v \<Rightarrow> v | None \<Rightarrow> 0);
               p = parse_barcode rx barcode st
           in load_entries rx now st objs (out @
                [\<lparr>sr_id = rid, sr_timestamp = ts, sr_barcode = barcode,
                  sr_size_gb = (case p_size_gb p of Some v \<Rightarrow> v | None \<Rightarrow> 0),
                  sr_speed_mts = (case p_speed_mts p of Some v \<Rightarrow> v | None \<Rightarrow> 0),
                  sr_mem_type = (case p_mem_type p of Some v \<Rightarrow> v | None \<Rightarrow> []),
                  sr_module_class = p_module_class p, sr_ecc = p_ecc p,
                  sr_manufacturer = (case p_manufacturer p of Some v \<Rightarrow> v | None \<Rightarrow> []),
                  sr_version = version\<rparr>]))"

definition load_results_file :: "re_search \<Rightarrow> string \<Rightarrow> App \<Rightarrow> ScanResult list" where
  "load_results_file rx now a = (case results_json a of
       None \<Rightarrow> []
     | Some raw \<Rightarrow> load_entries rx now (store a) raw [])"

text \<open>
  The loop of \<^verbatim>\<open>_rebuild_everything_from_results\<close>. Its state: the version table,
  \<^verbatim>\<open>next_ver\<close>, the counts, the meta table and the results already visited (with their
  \<^verbatim>\<open>version\<close> rewritten). A result whose key has no version takes \<^verbatim>\<open>next_ver\<close>; every
  result then carries the version the table holds for its key.
\<close>

type_synonym rebuild_state =
  "(string \<times> int) list \<times> int \<times> (string \<times> int) list \<times> (string \<times> variant_meta_t) list
     \<times> ScanResult list"

fun rebuild_loop :: "ScanResult list \<Rightarrow> rebuild_state \<Rightarrow> rebuild_state" where
  "rebuild_loop [] acc = acc"
| "rebuild_loop (r # rs) (vers, next_ver, counts, meta, out) =
     (let b = sr_barcode r;
          vers' = (case map_of vers b of None \<Rightarrow> AList.update b next_ver vers | Some _ \<Rightarrow> vers);
          next_ver' = (case map_of vers b of None \<Rightarrow> next_ver + 1 | Some _ \<Rightarrow> next_ver);
          v = (case map_of vers b of None \<Rightarrow> next_ver | Some v0 \<Rightarrow> v0);
          counts' = AList.update b (dict_get counts b 0 + 1) counts;
          meta' = AList.update b (sr_size_gb r, sr_speed_mts r, sr_mem_type r,
                    sr_module_class r, sr_ecc r, sr_manufacturer r) meta
      in rebuild_loop rs (vers', next_ver', counts', meta', out @ [r\<lparr>sr_version := v\<rparr>]))"

definition rebuild_everything_from_results :: "App \<Rightarrow> App" where
  "rebuild_everything_from_results a =
     (case rebuild_loop (results_data a)
             (barcode_versions a, next_version (barcode_versions a), [], [], []) of
        (vers, next_ver, counts, meta, rs) \<Rightarrow>
          a\<lparr>variant_counts := counts, variant_meta := meta, barcode_versions := vers,
            results_data := rs,
            store := store_save ((store a)\<lparr>versions := vers\<rparr>),
            latest_item_id := (if rs = [] then None else Some (sr_id (last rs))),
            latest_key := (if rs = [] then None else Some (sr_barcode (last rs)))\<rparr>)"

definition load_results_from_file_and_rebuild :: "re_search \<Rightarrow> string \<Rightarrow> App \<Rightarrow> App" where
  "load_results_from_file_and_rebuild rx now a =
     (let rs = load_results_file rx now a
      in rebuild_everything_from_results
           (a\<lparr>results_data := rs, result_seq := py_max_default 0 (map sr_id rs)\<rparr>))"

text \<open>\<^verbatim>\<open>App.__init__\<close> for a loaded store and a ledger file.\<close>

definition app_init ::
    "re_search \<Rightarrow> string \<Rightarrow> MappingStore \<Rightarrow> ledger_entry list option \<Rightarrow> App" where
  "app_init rx now st file =
     load_results_from_file_and_rebuild rx now
       \<lparr>store = st, barcode_versions = versions st, variant_meta = [], variant_counts = [],
        results_data = [], result_seq = 0, latest_item_id = None, latest_key = None,
        results_json = file\<rparr>"

text \<open>\<^verbatim>\<open>add_result\<close>; \<open>ts\<close> is the clock's timestamp.\<close>

definition add_result ::
    "string \<Rightarrow> int \<Rightarrow> int \<Rightarrow> string \<Rightarrow> string option \<Rightarrow> bool option \<Rightarrow> string \<Rightarrow> string
      \<Rightarrow> App \<Rightarrow> App" where
  "add_result barcode_key sz sp mt mc ec mf ts a =
     (let rid = result_seq a + 1;
          version = (case map_of (barcode_versions a) barcode_key of
                       Some v \<Rightarrow> v
                     | None \<Rightarrow> next_version (barcode_versions a));
          vers = (case map_of (barcode_versions a) barcode_key of
                    Some _ \<Rightarrow> barcode_versions a
                  | None \<Rightarrow> AList.update barcode_key version (barcode_versions a));
          st = (case map_of (barcode_versions a) barcode_key of
                  Some _ \<Rightarrow> store a
                | None \<Rightarrow> store_save ((store a)\<lparr>versions := vers\<rparr>));
          sr = \<lparr>sr_id = rid, sr_timestamp = ts, sr_barcode = barcode_key, sr_size_gb = sz,
                sr_speed_mts = sp, sr_mem_type = mt, sr_module_class = mc, sr_ecc = ec,
                sr_manufacturer = mf, sr_version = version\<rparr>
      in save_results_file
           (a\<lparr>result_seq := rid, barcode_versions := vers, store := st,
              variant_counts :=
                AList.update barcode_key (dict_get (variant_counts a) barcode_key 0 + 1)
                  (variant_counts a),
              variant_meta := AList.update barcode_key (sz, sp, mt, mc, ec, mf) (variant_meta a),
              results_data := results_data a @ [sr],
              latest_item_id := Some rid, latest_key := Some barcode_key\<rparr>))"

text \<open>
  \<^verbatim>\<open>add_result\<close> as its two callers reach it, after \<^verbatim>\<open>parsed_ok\<close>: the four fields
  \<^verbatim>\<open>all\<close> has tested are present then, so the last case is never taken.
\<close>

definition add_parsed :: "string \<Rightarrow> parsed \<Rightarrow> string \<Rightarrow> App \<Rightarrow> App" where
  "add_parsed barcode_key p ts a =
     (case (p_size_gb p, p_speed_mts p, p_mem_type p, p_manufacturer p) of
        (Some sz, Some sp, Some mt, Some mf) \<Rightarrow>
          add_result barcode_key sz sp mt (p_module_class p) (p_ecc p) mf ts a
      | _ \<Rightarrow> a)"

text \<open>
  \<^verbatim>\<open>on_scan_submit\<close> for the text \<open>raw\<close> of the scan field. An incomplete classification
  only fills the mapping form, which is a widget; an \<^verbatim>\<open>IndexError\<close> ends the handler.
\<close>

definition on_scan_submit :: "re_search \<Rightarrow> string \<Rightarrow> string \<Rightarrow> App \<Rightarrow> App" where
  "on_scan_submit rx ts raw a =
     (let raw_code = py_strip raw in
      if raw_code = [] then a
      else case clean_scanned_code raw_code of
             Inl e \<Rightarrow> a
           | Inr barcode_key \<Rightarrow>
               let p = parse_barcode rx barcode_key (store a)
               in if parsed_ok p then add_parsed barcode_key p ts a else a)"

text \<open>
  \<^verbatim>\<open>on_save_mapping\<close> from the point where the mapping \<open>m\<close> has been built from the form;
  its pattern is the canonical key of the form's code field.
\<close>

definition on_save_mapping :: "re_search \<Rightarrow> string \<Rightarrow> Mapping \<Rightarrow> App \<Rightarrow> App" where
  "on_save_mapping rx ts m a =
     (let barcode_key = pattern m;
          st1 = store_add m (store a);
          vers = (case map_of (barcode_versions a) barcode_key of
                    Some _ \<Rightarrow> barcode_versions a
                  | None \<Rightarrow> AList.update barcode_key (next_version (barcode_versions a))
                              (barcode_versions a));
          st2 = (case map_of (barcode_versions a) barcode_key of
                   Some _ \<Rightarrow> st1
                 | None \<Rightarrow> store_save (st1\<lparr>versions := vers\<rparr>));
          a1 = a\<lparr>store := st2, barcode_versions := vers\<rparr>;
          p = parse_barcode rx barcode_key st2
      in if parsed_ok p then add_parsed barcode_key p ts a1 else a1)"

definition remove_result :: "int \<Rightarrow> App \<Rightarrow> App" where
  "remove_result item_id a =
     save_results_file (rebuild_everything_from_results
       (a\<lparr>results_data := filter (\<lambda>r. sr_id r \<noteq> item_id) (results_data a)\<rparr>))"

definition remove_latest_scan :: "App \<Rightarrow> App" where
  "remove_latest_scan a = (case latest_item_id a of
       None \<Rightarrow> a
     | Some item_id \<Rightarrow> remove_result item_id a)"

text \<open>\<^verbatim>\<open>clear_results_and_counts\<close>; \<open>yes\<close> is the answer to the confirmation dialog.\<close>

definition clear_results_and_counts :: "bool \<Rightarrow> App \<Rightarrow> App" where
  "clear_results_and_counts yes a =
     (if yes
      then (save_results_file (a\<lparr>results_data := [], variant_counts := [], variant_meta := []\<rparr>))
             \<lparr>latest_item_id := None, latest_key := None\<rparr>
      else a)"

text \<open>\<^verbatim>\<open>on_delete_mapping\<close> for the selected rows of the list box.\<close>

definition on_delete_mapping :: "int list \<Rightarrow> App \<Rightarrow> App" where
  "on_delete_mapping selection a =
     a\<lparr>store := fold remove_index (rev (sort selection)) (store a)\<rparr>"

text \<open>
  The actions of a session, and a session as the list of its actions, run from the
  left.
\<close>

datatype action =
    Scan string string
  | SaveMapping Mapping string
  | RemoveResult int
  | RemoveLatest
  | ClearAll bool
  | DeleteMapping "int list"
  | Rebuild

fun step :: "re_search \<Rightarrow> App \<Rightarrow> action \<Rightarrow> App" where
  "step rx a (Scan raw ts) = on_scan_submit rx ts raw a"
| "step rx a (SaveMapping m ts) = on_save_mapping rx ts m a"
| "step rx a (RemoveResult item_id) = remove_result item_id a"
| "step rx a RemoveLatest = remove_latest_scan a"
| "step rx a (ClearAll yes) = clear_results_and_counts yes a"
| "step rx a (DeleteMapping selection) = on_delete_mapping selection a"
| "step rx a Rebuild = rebuild_everything_from_results a"

definition run :: "re_search \<Rightarrow> App \<Rightarrow> action list \<Rightarrow> App" where
  "run rx a acts = foldl (step rx) a acts"

text \<open>
  The invariant of the results: every result carries the version the table holds for
  its key.
\<close>

definition versions_agree :: "App \<Rightarrow> bool" where
  "versions_agree a =
     list_all (\<lambda>r. map_of (barcode_versions a) (sr_barcode r) = Some (sr_version r))
       (results_data a)"

text \<open>
  The replay the specification words: the ledger in ascending order of id (a stable
  sort), then the same loop.
\<close>

definition rebuild_in_id_order :: "App \<Rightarrow> App" where
  "rebuild_in_id_order a =
     rebuild_everything_from_results (a\<lparr>results_data := sort_key sr_id (results_data a)\<rparr>)"

section \<open>Facts about the Python primitives\<close>

lemmas chr_defs = isspace_chr_def chr_code_def decimal_chr_def isdigit_chr_def upper_AZ_def
  lower_az_def alpha_chr_def

lemmas canon_defs = clean_scanned_code_def py_strip_def py_split_def fullmatch_AZ2_def
  py_isdigit_def

lemma split_from_tokens_nonempty: "t \<in> set (split_from cur s) \<Longrightarrow> t \<noteq> []"
proof (induction s arbitrary: cur)
  case Nil
  then show ?case by (simp split: if_splits)
next
  case (Cons c cs)
  then show ?case by (simp split: if_splits) blast+
qed

lemma split_from_ne: "cur \<noteq> [] \<or> (\<exists>c \<in> set s. \<not> isspace_chr c) \<Longrightarrow> split_from cur s \<noteq> []"
proof (induction s arbitrary: cur)
  case Nil
  then show ?case by simp
next
  case (Cons c cs)
  show ?case
  proof (cases "isspace_chr c")
    case True
    then show ?thesis using Cons.prems Cons.IH [of "[]"] by (cases "cur = []") auto
  next
    case False
    then show ?thesis using Cons.IH [of "cur @ [c]"] by simp
  qed
qed

lemma strip_has_nonspace: "py_strip raw \<noteq> [] \<Longrightarrow> \<exists>c \<in> set (py_strip raw). \<not> isspace_chr c"
proof -
  assume a: "py_strip raw \<noteq> []"
  let ?e = "dropWhile isspace_chr (rev (dropWhile isspace_chr raw))"
  from a have ne: "?e \<noteq> []" by (simp add: py_strip_def)
  then have "\<not> isspace_chr (hd ?e)" by (rule hd_dropWhile)
  moreover have "hd ?e \<in> set ?e" using ne by simp
  moreover have "set (py_strip raw) = set ?e" by (simp add: py_strip_def)
  ultimately show ?thesis by blast
qed

lemma split_strip_ne: "py_strip raw \<noteq> [] \<Longrightarrow> py_split (py_strip raw) \<noteq> []"
  unfolding py_split_def using split_from_ne [of "[]" "py_strip raw"] strip_has_nonspace [of raw] by blast

section \<open>The canonicalizer\<close>

lemma plus_cut:
  "(if CHR ''+'' \<in> set c then Inr (takeWhile (\<lambda>x. x \<noteq> CHR ''+'') c) else Inr c)
     = (Inr (takeWhile (\<lambda>x. x \<noteq> CHR ''+'') c) :: py_error + string)"
proof (cases "CHR ''+'' \<in> set c")
  case True
  then show ?thesis by simp
next
  case False
  then have "\<forall>x \<in> set c. x \<noteq> CHR ''+''" by blast
  then have "takeWhile (\<lambda>x. x \<noteq> CHR ''+'') c = c"
    by (simp only: takeWhile_eq_all_conv)
  with False show ?thesis by (simp only: if_False)
qed

lemma pick_candidate:
  assumes ne: "rest \<noteq> []" and tok: "\<forall>t \<in> set rest. t \<noteq> []"
  shows "(if 2 \<le> length rest \<and> py_isdigit (last rest) \<and> py_isdigit (rest ! (length rest - 2))
          then Inr (last rest)
          else (case rest of [] \<Rightarrow> Inl IndexError | t # _ \<Rightarrow> Inr t))
       = Inr (case rev rest of
                a # b # _ \<Rightarrow> if list_all isdigit_chr a \<and> list_all isdigit_chr b then a else hd rest
              | [a] \<Rightarrow> a
              | [] \<Rightarrow> [])"
proof (cases "rev rest")
  case Nil
  with ne show ?thesis by simp
next
  case (Cons a r)
  show ?thesis
  proof (cases r)
    case Nil
    with Cons have "rev (rev rest) = rev [a]" by simp
    then have "rest = [a]" by simp
    then show ?thesis by simp
  next
    case (Cons b r')
    with \<open>rev rest = a # r\<close> have "rev (rev rest) = rev (a # b # r')" by simp
    then have r: "rest = rev r' @ [b, a]" by simp
    then have "a \<noteq> []" "b \<noteq> []" using tok by auto
    moreover have "last rest = a" "rest ! (length rest - 2) = b" "2 \<le> length rest"
      using r by (simp_all add: nth_append)
    moreover have "(case rest of [] \<Rightarrow> Inl IndexError | t # x \<Rightarrow> Inr t) = (Inr (hd rest) :: py_error + string)"
      using ne by (cases rest) simp_all
    ultimately show ?thesis using Cons \<open>rev rest = a # r\<close> by (simp add: py_isdigit_def)
  qed
qed

lemma drop_country:
  "(if 2 \<le> length toks \<and> fullmatch_AZ2 (toks ! 0) then tl toks else toks)
     = (case toks of t # u # us \<Rightarrow> if fullmatch_AZ2 t then u # us else toks | _ \<Rightarrow> toks)"
proof (cases toks)
  case Nil
  then show ?thesis by simp
next
  case (Cons t r)
  then show ?thesis by (cases r) simp_all
qed

lemma drop_country_tokens:
  assumes "toks \<noteq> []"
  shows "(case toks of t # u # us \<Rightarrow> if fullmatch_AZ2 t then u # us else toks | _ \<Rightarrow> toks) \<noteq> []"
    and "set (case toks of t # u # us \<Rightarrow> if fullmatch_AZ2 t then u # us else toks | _ \<Rightarrow> toks) \<subseteq> set toks"
proof -
  obtain t r where tr: "toks = t # r" using assms by (cases toks) auto
  show "(case toks of t # u # us \<Rightarrow> if fullmatch_AZ2 t then u # us else toks | _ \<Rightarrow> toks) \<noteq> []"
    unfolding tr by (cases r) simp_all
  show "set (case toks of t # u # us \<Rightarrow> if fullmatch_AZ2 t then u # us else toks | _ \<Rightarrow> toks) \<subseteq> set toks"
    unfolding tr by (cases r) auto
qed

lemma clean_is_spec_isdigit: "clean_scanned_code raw = Inr (canonicalize_spec isdigit_chr raw)"
proof (cases "py_strip raw = []")
  case True
  then show ?thesis
    by (simp add: clean_scanned_code_def canonicalize_spec_def py_split_def)
next
  case False
  define toks where "toks = py_split (py_strip raw)"
  define rest where "rest = (case toks of t # u # us \<Rightarrow> if fullmatch_AZ2 t then u # us else toks | _ \<Rightarrow> toks)"
  define cand where "cand = (case rev rest of
                a # b # _ \<Rightarrow> if list_all isdigit_chr a \<and> list_all isdigit_chr b then a else hd rest
              | [a] \<Rightarrow> a
              | [] \<Rightarrow> [])"
  have toks: "toks \<noteq> []" unfolding toks_def using False by (rule split_strip_ne)
  have nonempty: "\<forall>t \<in> set toks. t \<noteq> []"
    using split_from_tokens_nonempty by (auto simp: py_split_def toks_def)
  have rest: "rest \<noteq> []" "\<forall>t \<in> set rest. t \<noteq> []"
    unfolding rest_def using drop_country_tokens [OF toks] nonempty by blast+
  have spec: "canonicalize_spec isdigit_chr raw = takeWhile (\<lambda>c. c \<noteq> CHR ''+'') cand"
    unfolding canonicalize_spec_def Let_def cand_def rest_def toks_def by (rule refl)
  have "clean_scanned_code raw =
      (case (if 2 \<le> length rest \<and> py_isdigit (last rest) \<and> py_isdigit (rest ! (length rest - 2))
          then Inr (last rest)
          else (case rest of [] \<Rightarrow> Inl IndexError | t # _ \<Rightarrow> Inr t)) of
             Inl e \<Rightarrow> Inl e
           | Inr candidate \<Rightarrow>
               if CHR ''+'' \<in> set candidate
               then Inr (takeWhile (\<lambda>c. c \<noteq> CHR ''+'') candidate)
               else Inr candidate)"
    unfolding clean_scanned_code_def Let_def rest_def toks_def drop_country
    by (simp only: False if_False)
  also have "\<dots> = Inr (takeWhile (\<lambda>c. c \<noteq> CHR ''+'') cand)"
    unfolding pick_candidate [OF rest] cand_def [symmetric] by (simp only: sum.case plus_cut)
  finally show ?thesis by (simp only: spec)
qed

text \<open>
  Claim C2, as the code has it. \<open>clean_scanned_code\<close> never raises and computes the
  canonicalizer of the specification: trim, empty for blank input, split on whitespace,
  drop a leading token of exactly two letters \<^verbatim>\<open>A-Z\<close> when there are at least two
  tokens, take the last token when at least two remain and the last two consist of
  digits, else the first, and cut at the first \<^verbatim>\<open>+\<close>; where a digit is a character
  \<^verbatim>\<open>str.isdigit\<close> accepts, that is a decimal digit or a superscript digit. The three
  examples of the claim hold.
\<close>

theorem clean_scanned_code_canonicalize:
  "clean_scanned_code raw = Inr (canonicalize_spec isdigit_chr raw)
   \<and> clean_scanned_code ''CN 10680063 123201927'' = Inr ''123201927''
   \<and> clean_scanned_code ''M391B2873FH0+ABC'' = Inr ''M391B2873FH0''
   \<and> clean_scanned_code ''  HMT84GL7AMR4C  '' = Inr ''HMT84GL7AMR4C''"
proof -
  have "clean_scanned_code ''CN 10680063 123201927'' = Inr ''123201927''"
    by (simp add: canon_defs chr_defs)
  moreover have "clean_scanned_code ''M391B2873FH0+ABC'' = Inr ''M391B2873FH0''"
    by (simp add: canon_defs chr_defs)
  moreover have "clean_scanned_code ''  HMT84GL7AMR4C  '' = Inr ''HMT84GL7AMR4C''"
    by (simp add: canon_defs chr_defs)
  ultimately show ?thesis using clean_is_spec_isdigit by blast
qed

text \<open>
  Claim C2 as it is stated, with decimal digits, fails: for the input
  \<^verbatim>\<open>X\<close>, superscript two, superscript three (separated by blanks) \<^verbatim>\<open>isdigit\<close> holds of the
  last two tokens and the code returns the last token, while no decimal digit occurs and
  the stated rule picks the first token.
\<close>

theorem canonicalize_decimal_digits_counterexample:
  "clean_scanned_code [CHR ''X'', CHR '' '', CHR 0xB2, CHR '' '', CHR 0xB3] = Inr [CHR 0xB3]
   \<and> canonicalize_spec decimal_chr [CHR ''X'', CHR '' '', CHR 0xB2, CHR '' '', CHR 0xB3] = ''X''"
  by (simp add: canonicalize_spec_def canon_defs chr_defs)

end
